theory Spec2Isabelle
  imports Main "HOL-Library.Char_ord" "HOL-Library.List_Lexorder" "HOL-Library.Sublist"
begin

section \<open>Python containers and strings\<close>

text \<open>
  A Python \<open>dict\<close> keeps its keys in insertion order and holds each key once.  It is
  modelled as an association list: assigning to a key that is present replaces the value in
  place, assigning to a new key appends the pair.
\<close>

type_synonym ('k, 'v) pydict = "('k \<times> 'v) list"

fun dict_set :: "('k, 'v) pydict \<Rightarrow> 'k \<Rightarrow> 'v \<Rightarrow> ('k, 'v) pydict" where
  "dict_set [] k v = [(k, v)]"
| "dict_set ((k', v') # kvs) k v =
     (if k' = k then (k, v) # kvs else (k', v') # dict_set kvs k v)"

definition dict_keys :: "('k, 'v) pydict \<Rightarrow> 'k list" where
  "dict_keys d = map fst d"

definition dict_has :: "('k, 'v) pydict \<Rightarrow> 'k \<Rightarrow> bool" where
  "dict_has d k = (map_of d k \<noteq> None)"

text \<open>\<open>sep.join(xs)\<close>.\<close>

fun join :: "string \<Rightarrow> string list \<Rightarrow> string" where
  "join sep [] = []"
| "join sep [x] = x"
| "join sep (x # y # ys) = x @ sep @ join sep (y # ys)"

text \<open>\<open>s.startswith(p)\<close> is \<^const>\<open>prefix\<close> \<open>p s\<close>.\<close>

definition startswith :: "string \<Rightarrow> string \<Rightarrow> bool" where
  "startswith s p = prefix p s"

section \<open>Data model of the navigation tree\<close>

text \<open>
  A module path is the tuple of path segments of a package directory.  The registry
  \<open>package_nodes[package_name]\<close> maps module paths to the documentation page of the
  package index.  An item of the navigation is a one-key dict \<open>{label: value}\<close> whose
  value is a page path or a list of items; the value stored for a group key in
  \<open>nav_structure[package_name]\<close> is likewise a page path or a list of items.
\<close>

type_synonym module_path = "string list"

type_synonym nodes = "(module_path, string) pydict"

datatype nav_item = Item string nav_val
  and nav_val = Path string | Items "nav_item list"

type_synonym package_nav = "(string, nav_val) pydict"

type_synonym nav_structure = "(string, package_nav) pydict"

record group_data =
  Index :: string
  children :: nodes

type_synonym groups = "(module_path, group_data) pydict"

section \<open>Navigation tree builder\<close>

text \<open>
  The second half of \<open>_build_nav_structure_only\<close> (the same text closes
  \<open>process_package\<close>).  First loop: group the nodes by their first three segments; the
  group is created by the first node met with that prefix and keeps that node's page as
  \<open>'Index'\<close>.
\<close>

definition add_to_group :: "groups \<Rightarrow> module_path \<Rightarrow> string \<Rightarrow> groups" where
  "add_to_group gs parts_tuple index_path =
     (let key = take 3 parts_tuple;
          gs1 = (if \<not> dict_has gs key
                 then dict_set gs key \<lparr>Index = index_path, children = []\<rparr>
                 else gs)
      in case map_of gs1 key of
           None \<Rightarrow> gs1
         | Some data \<Rightarrow>
             dict_set gs1 key (data\<lparr>children := dict_set (children data) parts_tuple index_path\<rparr>))"

fun collect_groups :: "nodes \<Rightarrow> groups \<Rightarrow> groups" where
  "collect_groups [] gs = gs"
| "collect_groups ((parts_tuple, index_path) # rest) gs =
     (if length parts_tuple \<ge> 3
      then collect_groups rest (add_to_group gs parts_tuple index_path)
      else collect_groups rest gs)"

text \<open>Second loop, for one group \<open>first3\<close>.\<close>

definition child_index_map :: "nodes \<Rightarrow> module_path \<Rightarrow> nodes" where
  "child_index_map ns first3 =
     filter (\<lambda>(parts_tuple, index_path). length parts_tuple = 4 \<and> take 3 parts_tuple = first3) ns"

definition has_deeper :: "nodes \<Rightarrow> module_path \<Rightarrow> bool" where
  "has_deeper ns child_parts =
     list_ex (\<lambda>p. length p > 4 \<and> take 4 p = child_parts) (dict_keys ns)"

text \<open>
  \<open>grand_children\<close> with the page \<open>nodes[gc_parts]\<close> beside each key: the keys of a dict
  are distinct, so sorting the pairs by key is \<open>sorted(grand_children)\<close>.
\<close>

definition grand_children :: "nodes \<Rightarrow> module_path \<Rightarrow> nodes" where
  "grand_children ns child_parts =
     filter (\<lambda>(p, gc_path). length p = 5 \<and> take 4 p = child_parts) ns"

definition child_item :: "nodes \<Rightarrow> module_path \<times> string \<Rightarrow> nav_item" where
  "child_item ns = (\<lambda>(child_parts, child_path).
     let child_name = last child_parts in
     if \<not> has_deeper ns child_parts
     then Item child_name (Path child_path)
     else Item child_name (Items
            (Item child_name (Path child_path) #
             map (\<lambda>(gc_parts, gc_path). Item (last gc_parts) (Path gc_path))
                 (sort_key fst (grand_children ns child_parts)))))"

definition group_items :: "nodes \<Rightarrow> module_path \<Rightarrow> group_data \<Rightarrow> nav_item list" where
  "group_items ns first3 data =
     Item (last first3) (Path (Index data)) #
     map (child_item ns) (sort_key fst (child_index_map ns first3))"

definition group_value :: "bool \<Rightarrow> nodes \<Rightarrow> module_path \<Rightarrow> group_data \<Rightarrow> nav_val" where
  "group_value single_entry_as_group ns first3 data =
     (let items = group_items ns first3 data in
      if length items = 1
      then (if single_entry_as_group then Items items else Path (Index data))
      else Items items)"

definition display_key :: "module_path \<Rightarrow> string" where
  "display_key first3 = join ''.'' first3"

definition build_groups :: "bool \<Rightarrow> nodes \<Rightarrow> package_nav \<Rightarrow> package_nav" where
  "build_groups single_entry_as_group ns pnav =
     fold (\<lambda>(first3, data) acc.
             dict_set acc (display_key first3) (group_value single_entry_as_group ns first3 data))
          (collect_groups ns []) pnav"

section \<open>Configuration and generator state\<close>

text \<open>The options of \<open>DocumentationConfig\<close> that the scanner, classifier and builder read.\<close>

record config =
  exclude_patterns :: "string list"
  exclude_files :: "string list"
  docs_base_path :: string
  verbose :: bool
  skip_empty_modules :: bool
  only_index_pages :: bool
  single_entry_as_group :: bool

text \<open>
  The fields of \<open>DocumentationGenerator\<close> that \<open>_build_nav_structure_only\<close> updates.  A
  path is the list of its components (\<open>path.parts\<close>).
\<close>

record generator =
  package_nodes :: "(string, nodes) pydict"
  nav_structure :: nav_structure
  skipped_files :: "string list list"
  error_files :: "(string list \<times> string) list"

text \<open>The defaults of \<open>_set_defaults\<close> and the state \<open>DocumentationGenerator.__init__\<close> sets up.\<close>

definition default_config :: config where
  "default_config =
     \<lparr>exclude_patterns = [''__pycache__'', ''.venv'', ''venv'', ''.git'', ''.pytest_cache'',
                          ''node_modules'', ''tests'', ''test'', ''ipynb'', ''dist'', ''build''],
      exclude_files = [''__main__.py'', ''setup.py'', ''conftest.py'', ''version.py''],
      docs_base_path = ''reference'',
      verbose = True,
      skip_empty_modules = True,
      only_index_pages = True,
      single_entry_as_group = True\<rparr>"

definition new_generator :: generator where
  "new_generator = \<lparr>package_nodes = [], nav_structure = [], skipped_files = [], error_files = []\<rparr>"

section \<open>Export-list extraction\<close>

text \<open>
  \<open>_parse_init_doc_and_all\<close> reads the file, parses it with \<open>ast.parse\<close> and walks
  \<open>tree.body\<close>, the top-level statements.  Reading, parsing and \<open>ast.literal_eval\<close> are
  library calls; their outcomes are part of the input.  For an assignment the model keeps
  the targets and the outcome of \<open>ast.literal_eval(node.value)\<close>: it raises (for a name, a
  call, an attribute, a concatenation, ...) or returns a value, of which only lists and
  tuples matter; their elements are kept as \<open>str(v)\<close>.
\<close>

datatype pyvalue = PyList "string list" | PyTuple "string list" | PyOther

datatype literal_eval = Raises | Value pyvalue

datatype target = Name string | Other_target

datatype stmt = Assign "target list" literal_eval | Other_stmt

datatype source_text =
    Unreadable
  | Syntax_error
  | Module "string option" "stmt list"

text \<open>The loop over \<open>node.targets\<close>; \<open>exports\<close> keeps its value when the evaluation
  raises or the value is not a list or tuple.\<close>

fun assign_targets :: "target list \<Rightarrow> literal_eval \<Rightarrow> string list \<Rightarrow> string list" where
  "assign_targets [] v exports = exports"
| "assign_targets (Name ident # ts) v exports =
     assign_targets ts v
       (if ident = ''__all__''
        then (case v of
                Value (PyList xs) \<Rightarrow> xs
              | Value (PyTuple xs) \<Rightarrow> xs
              | Value PyOther \<Rightarrow> exports
              | Raises \<Rightarrow> exports)
        else exports)"
| "assign_targets (Other_target # ts) v exports = assign_targets ts v exports"

fun scan_body :: "stmt list \<Rightarrow> string list \<Rightarrow> string list" where
  "scan_body [] exports = exports"
| "scan_body (Assign targets v # body) exports = scan_body body (assign_targets targets v exports)"
| "scan_body (Other_stmt # body) exports = scan_body body exports"

fun parse_init_doc_and_all :: "source_text \<Rightarrow> string option \<times> string list" where
  "parse_init_doc_and_all Unreadable = (None, [])"
| "parse_init_doc_and_all Syntax_error = (None, [])"
| "parse_init_doc_and_all (Module docstring body) = (docstring, scan_body body [])"

section \<open>Source scanner and entry-point classifier\<close>

text \<open>
  A candidate file found by \<open>code_src.rglob("*.py")\<close>: its directories below the package
  root, its name, the size \<open>stat\<close> reports (\<open>None\<close> when \<open>stat\<close> raises) and its text.
\<close>

record src_file =
  dir_parts :: "string list"
  file_name :: string
  st_size :: "nat option"
  source :: source_text

text \<open>\<open>name.rfind('.')\<close>, and pathlib's \<open>suffix\<close> and \<open>with_suffix\<close> on a file name.\<close>

fun rfind :: "char \<Rightarrow> string \<Rightarrow> nat option" where
  "rfind c [] = None"
| "rfind c (x # xs) =
     (case rfind c xs of
        Some i \<Rightarrow> Some (Suc i)
      | None \<Rightarrow> if x = c then Some 0 else None)"

definition path_suffix :: "string \<Rightarrow> string" where
  "path_suffix name =
     (case rfind (CHR ''.'') name of
        None \<Rightarrow> []
      | Some i \<Rightarrow> if 0 < i \<and> i < length name - 1 then drop i name else [])"

definition with_suffix :: "string \<Rightarrow> string \<Rightarrow> string" where
  "with_suffix name sfx = take (length name - length (path_suffix name)) name @ sfx"

definition should_exclude_path :: "config \<Rightarrow> string list \<Rightarrow> bool" where
  "should_exclude_path cfg path =
     (list_ex (\<lambda>pattern. pattern \<in> set path) (exclude_patterns cfg)
      \<or> last path \<in> set (exclude_files cfg)
      \<or> startswith (last path) ''.'')"

definition is_valid_python_module :: "config \<Rightarrow> src_file \<Rightarrow> bool" where
  "is_valid_python_module cfg f =
     (if path_suffix (file_name f) \<noteq> ''.py'' then False
      else case st_size f of
             None \<Rightarrow> False
           | Some n \<Rightarrow> \<not> (n = 0 \<and> skip_empty_modules cfg))"

text \<open>
  \<open>process_init_module\<close>, on the module parts and the parts of \<open>doc_path\<close>;
  \<open>full_doc_path\<close> is not used by \<open>_build_nav_structure_only\<close> and is left out.
\<close>

definition process_init_module ::
  "string list \<Rightarrow> string list \<Rightarrow> source_text \<Rightarrow> string list \<times> string list \<times> bool" where
  "process_init_module parts doc_path src =
     (let exports = snd (parse_init_doc_and_all src);
          has_all = (length exports > 0)
      in if length parts > 1
         then (butlast parts, butlast doc_path @ [''index.md''], has_all)
         else (parts, doc_path, has_all))"

text \<open>
  The body of the loop over \<open>python_files\<close>.  In the last branch (a module that is no
  \<open>__init__\<close>, with \<open>only_index_pages\<close> off) the test
  \<open>path.name == '__init__.py' and has_all\<close> is false on its first conjunct, so no node is
  recorded.
\<close>

definition visit_file :: "config \<Rightarrow> string list \<Rightarrow> string \<Rightarrow> src_file \<Rightarrow> generator \<Rightarrow> generator" where
  "visit_file cfg code_src package_name f g =
     (let path = code_src @ dir_parts f @ [file_name f] in
      if should_exclude_path cfg path
      then g\<lparr>skipped_files := skipped_files g @ [path]\<rparr>
      else
        let stem = with_suffix (file_name f) [];
            parts0 = dir_parts f @ [stem];
            doc_path0 = dir_parts f @ [with_suffix stem ''.md'']
        in if last parts0 = ''__init__''
           then
             (case process_init_module parts0 doc_path0 (source f) of
                (parts, doc_path, has_all) \<Rightarrow>
                  if parts = [] then g
                  else if \<not> has_all then g
                  else if file_name f = ''__init__.py'' \<and> has_all
                  then
                    (let ns = (case map_of (package_nodes g) package_name of
                                 None \<Rightarrow> [] | Some ns \<Rightarrow> ns);
                         page = docs_base_path cfg @ ''/'' @ package_name @ ''/'' @ join ''/'' doc_path
                     in g\<lparr>package_nodes :=
                            dict_set (package_nodes g) package_name (dict_set ns parts page)\<rparr>)
                  else g)
           else if last parts0 = ''__main__'' then g
           else if only_index_pages cfg then g
           else g)"

text \<open>The closing block: build the navigation of the package from its nodes.\<close>

definition build_package_nav :: "config \<Rightarrow> string \<Rightarrow> generator \<Rightarrow> generator" where
  "build_package_nav cfg package_name g =
     (case map_of (package_nodes g) package_name of
        None \<Rightarrow> g
      | Some ns \<Rightarrow>
          if ns = [] then g
          else
            let pnav = (case map_of (nav_structure g) package_name of
                          None \<Rightarrow> [] | Some pnav \<Rightarrow> pnav)
            in g\<lparr>nav_structure :=
                   dict_set (nav_structure g) package_name
                     (build_groups (single_entry_as_group cfg) ns pnav)\<rparr>)"

text \<open>What \<open>code_src\<close> is on disk: missing, no directory, unreadable, or a directory with
  its candidate files.\<close>

datatype package_dir = Missing | Not_a_directory | Scan_error | Dir "src_file list"

definition file_path :: "string list \<Rightarrow> src_file \<Rightarrow> string list" where
  "file_path code_src f = code_src @ dir_parts f @ [file_name f]"

definition build_nav_structure_only ::
  "config \<Rightarrow> string list \<Rightarrow> string \<Rightarrow> package_dir \<Rightarrow> generator \<Rightarrow> generator" where
  "build_nav_structure_only cfg code_src package_name d g =
     (case d of
        Missing \<Rightarrow> g
      | Not_a_directory \<Rightarrow> g
      | Scan_error \<Rightarrow> g
      | Dir files \<Rightarrow>
          let python_files = sort_key (file_path code_src) (filter (is_valid_python_module cfg) files);
              g1 = (if \<not> dict_has (package_nodes g) package_name
                    then g\<lparr>package_nodes := dict_set (package_nodes g) package_name []\<rparr>
                    else g);
              g2 = fold (visit_file cfg code_src package_name) python_files g1
          in build_package_nav cfg package_name g2)"

section \<open>Strings: the library calls the merge engine uses\<close>

text \<open>
  Strings are byte strings.  Case conversion and the whitespace class are those of Python on
  ASCII; bytes above 127 are left alone and are neither cased nor whitespace.
\<close>

definition ascii_lowercase :: string where
  "ascii_lowercase = ''abcdefghijklmnopqrstuvwxyz''"

definition ascii_uppercase :: string where
  "ascii_uppercase = ''ABCDEFGHIJKLMNOPQRSTUVWXYZ''"

definition to_upper :: "char \<Rightarrow> char" where
  "to_upper c = (case map_of (zip ascii_lowercase ascii_uppercase) c of Some u \<Rightarrow> u | None \<Rightarrow> c)"

definition to_lower :: "char \<Rightarrow> char" where
  "to_lower c = (case map_of (zip ascii_uppercase ascii_lowercase) c of Some l \<Rightarrow> l | None \<Rightarrow> c)"

definition is_cased :: "char \<Rightarrow> bool" where
  "is_cased c = (c \<in> set ascii_lowercase \<or> c \<in> set ascii_uppercase)"

text \<open>\<open>s.lower()\<close> and \<open>s.title()\<close>: a letter after an uncased character is upper-cased, a
  letter after a cased one is lower-cased.\<close>

definition lower :: "string \<Rightarrow> string" where
  "lower s = map to_lower s"

fun title_from :: "bool \<Rightarrow> string \<Rightarrow> string" where
  "title_from previous_is_cased [] = []"
| "title_from previous_is_cased (c # cs) =
     (if previous_is_cased then to_lower c else to_upper c) # title_from (is_cased c) cs"

definition title :: "string \<Rightarrow> string" where
  "title s = title_from False s"

text \<open>\<open>str.isspace\<close> on ASCII, which is also the class \<open>\s\<close> of \<open>re\<close>.\<close>

definition is_space :: "char \<Rightarrow> bool" where
  "is_space c = (c \<in> set [CHR 0x09, CHR 0x0A, CHR 0x0B, CHR 0x0C, CHR 0x0D,
                             CHR 0x1C, CHR 0x1D, CHR 0x1E, CHR 0x1F, CHR 0x20])"

definition strip :: "string \<Rightarrow> string" where
  "strip s = rev (dropWhile is_space (rev (dropWhile is_space s)))"

text \<open>\<open>sub in s\<close>.\<close>

fun contains :: "string \<Rightarrow> string \<Rightarrow> bool" where
  "contains [] sub = (sub = [])"
| "contains (c # cs) sub = (prefix sub (c # cs) \<or> contains cs sub)"

text \<open>\<open>s.replace(old, new)\<close>: every occurrence, left to right, without overlap; an empty
  \<open>old\<close> matches before every character and at the end.\<close>

function replace :: "string \<Rightarrow> string \<Rightarrow> string \<Rightarrow> string" where
  "replace [] old new = (if old = [] then new else [])"
| "replace (c # cs) old new =
     (if old = [] then new @ c # replace cs old new
      else if prefix old (c # cs) then new @ replace (drop (length old) (c # cs)) old new
      else c # replace cs old new)"
  by pat_completeness auto
termination
  by (relation "measure (\<lambda>(s, old, new). length s)") auto

declare replace.simps [simp del]

text \<open>\<open>s.split(sep)\<close> for a one-character separator.\<close>

fun split :: "string \<Rightarrow> char \<Rightarrow> string list" where
  "split [] sep = [[]]"
| "split (c # cs) sep =
     (if c = sep then [] # split cs sep
      else (case split cs sep of
              [] \<Rightarrow> [[c]]
            | w # ws \<Rightarrow> (c # w) # ws))"

section \<open>Rendering the navigation\<close>

text \<open>\<open>_format_display_name\<close>; the replacements run in the order of the dict literal.\<close>

definition replacements :: "(string \<times> string) list" where
  "replacements =
     [(''Llm'', ''LLM''), (''Api'', ''API''), (''Ai'', ''AI''), (''Http'', ''HTTP''),
      (''Json'', ''JSON''), (''Xml'', ''XML''), (''Url'', ''URL''), (''Uri'', ''URI''),
      (''Uuid'', ''UUID''), (''Id'', ''ID'')]"

definition format_display_name :: "string \<Rightarrow> string" where
  "format_display_name name =
     fold (\<lambda>(old, new) formatted. replace formatted old new) replacements
          (title (replace name ''_'' '' ''))"

text \<open>
  \<open>_build_nav_structure\<close>.  The values the tree builder stores are lists and page paths,
  never dicts, so only the second branch is met; \<open>sorted(structure.items())\<close> orders the
  pairs by their keys, which are distinct.
\<close>

definition build_nav_structure :: "package_nav \<Rightarrow> nav_item list" where
  "build_nav_structure structure =
     map (\<lambda>(key, value).
            Item (if CHR ''.'' \<in> set key then key else format_display_name key) value)
         (sort_key fst structure)"

definition build_api_reference_nav :: "nav_structure \<Rightarrow> nav_item list" where
  "build_api_reference_nav nav =
     map (\<lambda>(package_name, package_structure).
            Item (format_display_name package_name) (Items (build_nav_structure package_structure)))
         nav"

text \<open>
  \<open>_nav_to_yaml_string\<close>: \<open>yaml_lines\<close> is the list \<open>lines\<close> the loop builds.  The lines of
  a nested list come back joined, are split again and the blank ones are skipped.
\<close>

fun yaml_lines :: "nav_item list \<Rightarrow> nat \<Rightarrow> string list"
  and item_lines :: "nav_item \<Rightarrow> nat \<Rightarrow> string list" where
  "yaml_lines [] indent = []"
| "yaml_lines (item # nav_list) indent = item_lines item indent @ yaml_lines nav_list indent"
| "item_lines (Item key (Path value)) indent =
     [replicate indent (CHR '' '') @ ''- '' @ key @ '': '' @ value]"
| "item_lines (Item key (Items value)) indent =
     (replicate indent (CHR '' '') @ ''- '' @ key @ '':'') #
     (let sub_yaml = join ''\<newline>'' (yaml_lines value (indent + 2))
      in if sub_yaml \<noteq> []
         then filter (\<lambda>sub_line. strip sub_line \<noteq> []) (split sub_yaml (CHR ''\<newline>''))
         else [])"

definition nav_to_yaml_string :: "nav_item list \<Rightarrow> nat \<Rightarrow> string" where
  "nav_to_yaml_string nav_list indent = join ''\<newline>'' (yaml_lines nav_list indent)"

text \<open>\<open>_generate_api_reference_content\<close>.\<close>

definition LLM_OVERVIEW_PATH :: string where
  "LLM_OVERVIEW_PATH = ''extras/llms/index.md''"

definition core_lines :: "nav_structure \<Rightarrow> string list" where
  "core_lines nav =
     (case filter (\<lambda>k. lower k = ''bridgic-core'') (dict_keys nav) of
        [] \<Rightarrow> []
      | core_key # _ \<Rightarrow>
          (case map_of nav core_key of
             None \<Rightarrow> []
           | Some core_structure \<Rightarrow>
               concat (map (\<lambda>item. case item of
                   Item key value \<Rightarrow>
                     (''    - '' @ format_display_name key @ '':'') #
                     (case value of
                        Path p \<Rightarrow> []
                      | Items v \<Rightarrow>
                          (let sub_yaml = nav_to_yaml_string v 6
                           in if sub_yaml \<noteq> []
                              then filter (\<lambda>sub_line. strip sub_line \<noteq> [])
                                     (split sub_yaml (CHR ''\<newline>''))
                              else [])))
                 (build_api_reference_nav [(core_key, core_structure)]))))"

definition integration_entries :: "nav_structure \<Rightarrow> (string \<times> string) list" where
  "integration_entries nav =
     map (\<lambda>pkg_name.
            let sfx = replace pkg_name ''bridgic-llms-'' [];
                dotted_suffix = replace sfx ''-'' ''_''
            in (''bridgic.llms.'' @ dotted_suffix,
                ''reference/'' @ pkg_name @ ''/bridgic/llms/'' @ dotted_suffix @ ''/index.md''))
         (filter (\<lambda>pkg_name. startswith pkg_name ''bridgic-llms-'') (dict_keys nav))"

definition integration_lines :: "nav_structure \<Rightarrow> string list" where
  "integration_lines nav =
     (let entries = integration_entries nav
      in if entries \<noteq> []
         then [''    - Bridgic-Integration:'', ''      - llms:'',
               ''        - llms: '' @ LLM_OVERVIEW_PATH] @
              map (\<lambda>(dotted, path). ''        - '' @ dotted @ '': '' @ path) entries
         else [])"

definition generate_api_reference_content :: "nav_structure \<Rightarrow> string" where
  "generate_api_reference_content nav =
     join ''\<newline>'' (core_lines nav @ integration_lines nav)"

section \<open>Template merge engine\<close>

text \<open>
  The two files the updater touches: the template \<open>scripts/mkdocs_template.yml\<close> and the
  destination \<open>mkdocs.yml\<close>.  \<open>open(path, 'w')\<close> followed by \<open>f.write\<close> either succeeds,
  fails to open (the file is as before), or fails after the file was opened, that is
  truncated, with some prefix of the text written.
\<close>

datatype disk_file = No_file | Read_error | Content string

record site_files =
  template_file :: disk_file
  mkdocs_file :: disk_file

datatype write_outcome = Write_ok | Open_fails | Write_fails nat

fun write_text :: "write_outcome \<Rightarrow> string \<Rightarrow> disk_file \<Rightarrow> bool \<times> disk_file" where
  "write_text Write_ok text old = (True, Content text)"
| "write_text Open_fails text old = (False, old)"
| "write_text (Write_fails n) text old = (False, Content (take n text))"

definition PLACEHOLDER :: string where
  "PLACEHOLDER = ''{{API_REFERENCE_CONTENT}}''"

text \<open>\<open>SafeMkDocsConfigUpdater.update_mkdocs_config\<close>; every exception ends in
  \<open>return False\<close>.\<close>

definition update_mkdocs_config ::
  "write_outcome \<Rightarrow> site_files \<Rightarrow> nav_structure \<Rightarrow> bool \<times> site_files" where
  "update_mkdocs_config w files nav =
     (case template_file files of
        No_file \<Rightarrow> (False, files)
      | Read_error \<Rightarrow> (False, files)
      | Content template_content \<Rightarrow>
          if \<not> contains template_content PLACEHOLDER then (False, files)
          else
            let api_reference_content = generate_api_reference_content nav;
                final_content = replace template_content PLACEHOLDER api_reference_content
            in case write_text w final_content (mkdocs_file files) of
                 (ok, written) \<Rightarrow> (ok, files\<lparr>mkdocs_file := written\<rparr>))"

section \<open>Region staging (the legacy updater)\<close>

text \<open>
  \<open>re.search(r'^nav:\s*$', text, flags=re.MULTILINE)\<close>.  At the start of a line the text
  \<open>nav:\<close> must follow; \<open>\s*\<close> then takes the longest run of whitespace and gives
  characters back until \<open>$\<close> matches: at once when the run reaches the end of the text,
  otherwise before the last newline of the run.  \<open>nav_match_len\<close> is the length of the match
  at the start of its argument.
\<close>

definition nav_match_len :: "string \<Rightarrow> nat option" where
  "nav_match_len s =
     (if prefix ''nav:'' s
      then (let rest = drop 4 s; ws = takeWhile is_space rest
            in if length ws = length rest then Some (4 + length ws)
               else (case rfind (CHR ''\<newline>'') ws of
                       Some k \<Rightarrow> Some (4 + k)
                     | None \<Rightarrow> None))
      else None)"

text \<open>The search from position \<open>i\<close> of the text, \<open>bol\<close> telling whether \<open>^\<close> matches there;
  the result is \<open>(match.start(), match.end())\<close>.\<close>

fun search_nav :: "string \<Rightarrow> nat \<Rightarrow> bool \<Rightarrow> (nat \<times> nat) option" where
  "search_nav [] i bol = None"
| "search_nav (c # cs) i bol =
     (case (if bol then nav_match_len (c # cs) else None) of
        Some n \<Rightarrow> Some (i, i + n)
      | None \<Rightarrow> search_nav cs (Suc i) (c = CHR ''\<newline>''))"

definition nav_search :: "string \<Rightarrow> (nat \<times> nat) option" where
  "nav_search original_content = search_nav original_content 0 True"

text \<open>
  \<open>re.search(r'^\n([a-z_]+:)', text, flags=re.MULTILINE)\<close>: at the start of a line an empty
  line, then a key of lower-case letters and underscores, then a colon.  The result is
  \<open>match.start()\<close>.
\<close>

definition is_key_char :: "char \<Rightarrow> bool" where
  "is_key_char c = (c \<in> set ascii_lowercase \<or> c = CHR ''_'')"

definition next_config_at :: "string \<Rightarrow> bool" where
  "next_config_at s =
     (case s of
        [] \<Rightarrow> False
      | c # rest \<Rightarrow>
          c = CHR ''\<newline>'' \<and>
          (let key = takeWhile is_key_char rest
           in key \<noteq> [] \<and> prefix '':'' (drop (length key) rest)))"

fun search_next_config :: "string \<Rightarrow> nat \<Rightarrow> bool \<Rightarrow> nat option" where
  "search_next_config [] i bol = None"
| "search_next_config (c # cs) i bol =
     (if bol \<and> next_config_at (c # cs) then Some i
      else search_next_config cs (Suc i) (c = CHR ''\<newline>''))"

definition next_config_search :: "string \<Rightarrow> nat option" where
  "next_config_search remaining_content = search_next_config remaining_content 0 True"

text \<open>\<open>_rebuild_nav_content\<close>: the first loop, with the flag \<open>skip_api_reference\<close>.\<close>

fun strip_api_reference :: "string list \<Rightarrow> bool \<Rightarrow> string list" where
  "strip_api_reference [] skip_api_reference = []"
| "strip_api_reference (line # nav_lines) skip_api_reference =
     (if startswith (strip line) ''- API Reference:''
      then strip_api_reference nav_lines True
      else if skip_api_reference
      then (if startswith line ''  - '' \<and> \<not> startswith line ''    ''
            then line # strip_api_reference nav_lines False
            else strip_api_reference nav_lines True)
      else line # strip_api_reference nav_lines False)"

fun about_index :: "string list \<Rightarrow> nat option" where
  "about_index [] = None"
| "about_index (line # new_nav_lines) =
     (if startswith (strip line) ''- About:'' then Some 0
      else map_option Suc (about_index new_nav_lines))"

definition new_api_section :: "nav_structure \<Rightarrow> string" where
  "new_api_section nav =
     ''  - API Reference:\<newline>'' @ nav_to_yaml_string (build_api_reference_nav nav) 2"

definition insert_api_section :: "string list \<Rightarrow> string \<Rightarrow> string list" where
  "insert_api_section new_nav_lines section =
     (case about_index new_nav_lines of
        Some i \<Rightarrow> take i new_nav_lines @ [section, []] @ drop i new_nav_lines
      | None \<Rightarrow>
          (if new_nav_lines \<noteq> [] \<and> strip (last new_nav_lines) \<noteq> []
           then new_nav_lines @ [[]] else new_nav_lines) @ [section])"

definition rebuild_nav_content :: "string \<Rightarrow> nav_structure \<Rightarrow> string" where
  "rebuild_nav_content nav_content nav =
     join ''\<newline>''
       (insert_api_section (strip_api_reference (split nav_content (CHR ''\<newline>'')) False)
          (new_api_section nav))"

text \<open>The split of the text after the marker into the region and the rest: up to and
  with the newline the second pattern matched, or all of it when nothing matched.\<close>

definition split_nav_region :: "string \<Rightarrow> string \<times> string" where
  "split_nav_region remaining_content =
     (case next_config_search remaining_content of
        Some m \<Rightarrow> (take (m + 1) remaining_content, drop (m + 1) remaining_content)
      | None \<Rightarrow> (remaining_content, []))"

text \<open>\<open>_update_mkdocs_config_legacy\<close>.  No method of the repository calls it.\<close>

definition update_mkdocs_config_legacy ::
  "write_outcome \<Rightarrow> site_files \<Rightarrow> nav_structure \<Rightarrow> bool \<times> site_files" where
  "update_mkdocs_config_legacy w files nav =
     (case mkdocs_file files of
        No_file \<Rightarrow> (False, files)
      | Read_error \<Rightarrow> (False, files)
      | Content original_content \<Rightarrow>
          (case nav_search original_content of
             None \<Rightarrow> (False, files)
           | Some (nav_start, nav_start_pos) \<Rightarrow>
               let content_before_nav = take nav_start original_content;
                   remaining_content = drop nav_start_pos original_content;
                   (nav_content, content_after_nav) = split_nav_region remaining_content;
                   new_nav_content = rebuild_nav_content nav_content nav;
                   final_content = content_before_nav @ ''nav:\<newline>'' @ new_nav_content
                                   @ (if content_after_nav \<noteq> [] then content_after_nav else [])
               in case write_text w final_content (mkdocs_file files) of
                    (ok, written) \<Rightarrow> (ok, files\<lparr>mkdocs_file := written\<rparr>)))"

section \<open>Properties of the containers\<close>

lemma dict_set_map_fst:
  "map fst (dict_set d k v) = (if k \<in> set (map fst d) then map fst d else map fst d @ [k])"
  by (induction d) (force+)

lemma dict_set_keys: "set (map fst (dict_set d k v)) = insert k (set (map fst d))"
  by (auto simp: dict_set_map_fst)

lemma map_of_dict_set: "map_of (dict_set d k v) = (map_of d)(k \<mapsto> v)"
  by (induction d) (auto simp: fun_eq_iff)

section \<open>Properties of the tree builder\<close>

lemma add_to_group_keys:
  "set (map fst (add_to_group gs p ip)) = insert (take 3 p) (set (map fst gs))"
  unfolding add_to_group_def Let_def
  by (auto simp: dict_set_keys dict_has_def map_of_dict_set simp del: set_map split: option.splits)

lemma collect_groups_keys:
  "set (map fst (collect_groups ns gs)) =
     set (map fst gs) \<union> set (map (take 3) (filter (\<lambda>p. 3 \<le> length p) (map fst ns)))"
  by (induction ns gs rule: collect_groups.induct) (auto simp: add_to_group_keys simp del: set_map)

lemma collect_groups_key_length:
  "list_all (\<lambda>(key, data). length key = 3) (collect_groups ns [])"
proof -
  have "\<forall>k \<in> set (map fst (collect_groups ns [])). length k = 3"
    unfolding collect_groups_keys by auto
  then show ?thesis
    by (auto simp: list_all_iff)
qed

lemma collect_groups_filter:
  "collect_groups (filter (\<lambda>(p, page). 3 \<le> length p) ns) gs = collect_groups ns gs"
  by (induction ns gs rule: collect_groups.induct) auto

lemma child_index_map_filter:
  "child_index_map (filter (\<lambda>(p, page). 3 \<le> length p) ns) first3 = child_index_map ns first3"
  unfolding child_index_map_def filter_filter
  by (rule filter_cong) auto

lemma grand_children_filter:
  "grand_children (filter (\<lambda>(p, page). 3 \<le> length p) ns) c = grand_children ns c"
  unfolding grand_children_def filter_filter
  by (rule filter_cong) auto

lemma has_deeper_filter:
  "has_deeper (filter (\<lambda>(p, page). 3 \<le> length p) ns) c = has_deeper ns c"
  by (force simp: has_deeper_def dict_keys_def list_ex_iff)

lemma child_item_filter:
  "child_item (filter (\<lambda>(p, page). 3 \<le> length p) ns) = child_item ns"
  by (auto simp: child_item_def fun_eq_iff has_deeper_filter grand_children_filter Let_def)

lemma group_value_filter:
  "group_value sg (filter (\<lambda>(p, page). 3 \<le> length p) ns) first3 data = group_value sg ns first3 data"
  by (simp add: group_value_def group_items_def child_item_filter child_index_map_filter)

lemma fold_dict_set_keys:
  "set (map fst (fold (\<lambda>(k, d) acc. dict_set acc (f k) (h k d)) xs acc))
   = set (map fst acc) \<union> f ` set (map fst xs)"
  by (induction xs arbitrary: acc) (auto simp: dict_set_keys simp del: set_map)

lemma build_groups_keys:
  "set (dict_keys (build_groups sg ns pnav))
   = set (dict_keys pnav) \<union> display_key ` set (dict_keys (collect_groups ns []))"
  unfolding build_groups_def dict_keys_def by (rule fold_dict_set_keys)

text \<open>
  C10.  Every group key has exactly three segments; the keys the builder adds to the
  navigation of the package are the dotted forms of these group keys; and the nodes with
  fewer than three segments have no part in that navigation: building it from all nodes
  and building it from the nodes of three or more segments give the same result.
\<close>

theorem group_keys_three_segments:
  "list_all (\<lambda>(key, data). length key = 3) (collect_groups ns [])
   \<and> set (dict_keys (build_groups sg ns pnav))
       = set (dict_keys pnav) \<union> display_key ` set (dict_keys (collect_groups ns []))
   \<and> build_groups sg (filter (\<lambda>(p, page). 3 \<le> length p) ns) pnav = build_groups sg ns pnav"
proof (intro conjI)
  show "list_all (\<lambda>(key, data). length key = 3) (collect_groups ns [])"
    by (rule collect_groups_key_length)
  show "set (dict_keys (build_groups sg ns pnav))
       = set (dict_keys pnav) \<union> display_key ` set (dict_keys (collect_groups ns []))"
    by (rule build_groups_keys)
  show "build_groups sg (filter (\<lambda>(p, page). 3 \<le> length p) ns) pnav = build_groups sg ns pnav"
    by (simp add: build_groups_def collect_groups_filter group_value_filter)
qed



section \<open>Properties of the scanner and classifier\<close>

lemma with_suffix_init_py: "with_suffix ''__init__.py'' [] = ''__init__''"
  by (simp add: with_suffix_def path_suffix_def)

lemma visit_file_error_files: "error_files (visit_file cfg root pkg f g) = error_files g"
  by (simp add: visit_file_def Let_def split: prod.splits)

lemma visit_file_nav_structure: "nav_structure (visit_file cfg root pkg f g) = nav_structure g"
  by (simp add: visit_file_def Let_def split: prod.splits)

lemma visit_file_nodes_cong:
  "package_nodes g = package_nodes g' \<Longrightarrow>
   package_nodes (visit_file cfg root pkg f g) = package_nodes (visit_file cfg root pkg f g')"
  by (simp add: visit_file_def Let_def split: prod.splits)

lemma visit_file_empty_index:
  assumes "file_name f = ''__init__.py''" "snd (parse_init_doc_and_all (source f)) = []"
  shows "package_nodes (visit_file cfg root pkg f g) = package_nodes g"
  using assms
  by (simp add: visit_file_def Let_def with_suffix_init_py process_init_module_def split: prod.splits)

lemma fold_visit_error_files:
  "error_files (fold (visit_file cfg root pkg) fs g) = error_files g"
  by (induction fs arbitrary: g) (simp_all add: visit_file_error_files)

lemma fold_visit_nav_structure:
  "nav_structure (fold (visit_file cfg root pkg) fs g) = nav_structure g"
  by (induction fs arbitrary: g) (simp_all add: visit_file_nav_structure)

lemma fold_visit_filter:
  "package_nodes g = package_nodes g' \<Longrightarrow>
   package_nodes (fold (visit_file cfg root pkg) fs g) =
   package_nodes (fold (visit_file cfg root pkg)
     (filter (\<lambda>f. \<not> (file_name f = ''__init__.py'' \<and> snd (parse_init_doc_and_all (source f)) = [])) fs) g')"
proof (induction fs arbitrary: g g')
  case Nil
  then show ?case by simp
next
  case (Cons f fs)
  show ?case
  proof (cases "file_name f = ''__init__.py'' \<and> snd (parse_init_doc_and_all (source f)) = []")
    case True
    then have "package_nodes (visit_file cfg root pkg f g) = package_nodes g'"
      using Cons.prems by (simp add: visit_file_empty_index)
    from Cons.IH [OF this] True show ?thesis by simp
  next
    case False
    have "package_nodes (visit_file cfg root pkg f g) = package_nodes (visit_file cfg root pkg f g')"
      using Cons.prems by (rule visit_file_nodes_cong)
    from Cons.IH [OF this] False show ?thesis by simp
  qed
qed

lemma build_package_nav_error_files: "error_files (build_package_nav cfg pkg g) = error_files g"
  by (simp add: build_package_nav_def Let_def split: option.splits)

lemma build_package_nav_nodes: "package_nodes (build_package_nav cfg pkg g) = package_nodes g"
  by (simp add: build_package_nav_def Let_def split: option.splits)

lemma build_package_nav_cong:
  "package_nodes g = package_nodes g' \<Longrightarrow> nav_structure g = nav_structure g' \<Longrightarrow>
   nav_structure (build_package_nav cfg pkg g) = nav_structure (build_package_nav cfg pkg g')"
  by (simp add: build_package_nav_def Let_def split: option.splits)

text \<open>
  C4.  A package index (\<open>__init__.py\<close>) whose extracted export list is empty leaves no
  trace: the navigation structure and the registry of nodes are the same as if the file
  were not in the tree, and no error is recorded.  For an \<open>__init__.py\<close> that the scanner
  does not exclude, the export list alone decides: the node is recorded exactly when the
  list is not empty.
\<close>

theorem empty_export_index_dropped:
  "(let kept = filter (\<lambda>f. \<not> (file_name f = ''__init__.py''
                               \<and> snd (parse_init_doc_and_all (source f)) = [])) files;
        g1 = build_nav_structure_only cfg root pkg (Dir files) g;
        g2 = build_nav_structure_only cfg root pkg (Dir kept) g
    in nav_structure g1 = nav_structure g2
       \<and> package_nodes g1 = package_nodes g2
       \<and> error_files g1 = error_files g)
   \<and> (file_name f = ''__init__.py'' \<and> \<not> should_exclude_path cfg (root @ dir_parts f @ [file_name f])
       \<longrightarrow> package_nodes (visit_file cfg root pkg f g) =
           (if snd (parse_init_doc_and_all (source f)) = [] then package_nodes g
            else dict_set (package_nodes g) pkg
                   (dict_set (case map_of (package_nodes g) pkg of None \<Rightarrow> [] | Some ns \<Rightarrow> ns)
                      (if dir_parts f = [] then [''__init__''] else dir_parts f)
                      (docs_base_path cfg @ ''/'' @ pkg @ ''/'' @
                         join ''/'' (dir_parts f @ [if dir_parts f = [] then ''__init__.md'' else ''index.md'']))))) "
proof -
  let ?P = "\<lambda>f. \<not> (file_name f = ''__init__.py'' \<and> snd (parse_init_doc_and_all (source f)) = [])"
  let ?V = "visit_file cfg root pkg"
  let ?g1 = "if \<not> dict_has (package_nodes g) pkg
             then g\<lparr>package_nodes := dict_set (package_nodes g) pkg []\<rparr> else g"
  let ?fs = "sort_key (file_path root) (filter (is_valid_python_module cfg) files)"
  have fs: "sort_key (file_path root) (filter (is_valid_python_module cfg) (filter ?P files)) = filter ?P ?fs"
    by (simp add: filter_sort conj_commute)
  have nodes: "package_nodes (fold ?V ?fs ?g1) = package_nodes (fold ?V (filter ?P ?fs) ?g1)"
    by (rule fold_visit_filter) simp
  have nav: "nav_structure (fold ?V ?fs ?g1) = nav_structure (fold ?V (filter ?P ?fs) ?g1)"
    by (simp add: fold_visit_nav_structure)
  have a: "nav_structure (build_nav_structure_only cfg root pkg (Dir files) g)
         = nav_structure (build_nav_structure_only cfg root pkg (Dir (filter ?P files)) g)"
    unfolding build_nav_structure_only_def Let_def package_dir.case fs
    by (rule build_package_nav_cong [OF nodes nav])
  have b: "package_nodes (build_nav_structure_only cfg root pkg (Dir files) g)
         = package_nodes (build_nav_structure_only cfg root pkg (Dir (filter ?P files)) g)"
    unfolding build_nav_structure_only_def Let_def package_dir.case fs build_package_nav_nodes
    by (rule nodes)
  have c: "error_files (build_nav_structure_only cfg root pkg (Dir files) g) = error_files g"
    by (simp add: build_nav_structure_only_def Let_def build_package_nav_error_files fold_visit_error_files)
  have d: "file_name f = ''__init__.py'' \<and> \<not> should_exclude_path cfg (root @ dir_parts f @ [file_name f])
       \<longrightarrow> package_nodes (visit_file cfg root pkg f g) =
           (if snd (parse_init_doc_and_all (source f)) = [] then package_nodes g
            else dict_set (package_nodes g) pkg
                   (dict_set (case map_of (package_nodes g) pkg of None \<Rightarrow> [] | Some ns \<Rightarrow> ns)
                      (if dir_parts f = [] then [''__init__''] else dir_parts f)
                      (docs_base_path cfg @ ''/'' @ pkg @ ''/'' @
                         join ''/'' (dir_parts f @ [if dir_parts f = [] then ''__init__.md'' else ''index.md'']))))"
    by (auto simp: visit_file_def Let_def with_suffix_init_py process_init_module_def
        with_suffix_def path_suffix_def butlast_append)
  from a b c d show ?thesis
    unfolding Let_def by blast
qed

theorem empty_export_index_dropped_witness:
  "nav_structure
     (build_nav_structure_only default_config [''/'', ''repo'', ''pkg''] ''pkg''
        (Dir [\<lparr>dir_parts = [''pkg''], file_name = ''__init__.py'', st_size = Some 12,
               source = Module None [Other_stmt]\<rparr>,
              \<lparr>dir_parts = [''pkg'', ''sub'', ''mod''], file_name = ''__init__.py'', st_size = Some 20,
               source = Module None [Assign [Name ''__all__''] (Value (PyList [''X'']))]\<rparr>])
        new_generator)
   = nav_structure
     (build_nav_structure_only default_config [''/'', ''repo'', ''pkg''] ''pkg''
        (Dir [\<lparr>dir_parts = [''pkg'', ''sub'', ''mod''], file_name = ''__init__.py'', st_size = Some 20,
               source = Module None [Assign [Name ''__all__''] (Value (PyList [''X'']))]\<rparr>])
        new_generator)
   \<and> \<not> should_exclude_path default_config [''/'', ''repo'', ''pkg'', ''pkg'', ''sub'', ''__init__.py'']
   \<and> package_nodes (visit_file default_config [''/'', ''repo'', ''pkg''] ''pkg''
        \<lparr>dir_parts = [''pkg'', ''sub''], file_name = ''__init__.py'', st_size = Some 20,
         source = Module None [Assign [Name ''__all__''] (Value (PyList [''X'']))]\<rparr> new_generator)
     = [(''pkg'', [([''pkg'', ''sub''], ''reference/pkg/pkg/sub/index.md'')])]
   \<and> package_nodes (visit_file default_config [''/'', ''repo'', ''pkg''] ''pkg''
        \<lparr>dir_parts = [''pkg'', ''sub''], file_name = ''__init__.py'', st_size = Some 20,
         source = Module None [Assign [Name ''__all__''] (Value PyOther)]\<rparr> new_generator)
     = []"
  using empty_export_index_dropped [of
      "[\<lparr>dir_parts = [''pkg''], file_name = ''__init__.py'', st_size = Some 12,
               source = Module None [Other_stmt]\<rparr>,
              \<lparr>dir_parts = [''pkg'', ''sub'', ''mod''], file_name = ''__init__.py'', st_size = Some 20,
               source = Module None [Assign [Name ''__all__''] (Value (PyList [''X'']))]\<rparr>]"
      default_config "[''/'', ''repo'', ''pkg'']" "''pkg''" new_generator
      "\<lparr>dir_parts = [''pkg'', ''sub''], file_name = ''__init__.py'', st_size = Some 20,
         source = Module None [Assign [Name ''__all__''] (Value (PyList [''X'']))]\<rparr>"]
  by code_simp

section \<open>Properties of the export-list extraction\<close>

lemma assign_targets_keep:
  "(Name ''__all__'' \<in> set ts \<longrightarrow> v = Raises \<or> v = Value PyOther) \<Longrightarrow> assign_targets ts v ex = ex"
  by (induction ts v ex rule: assign_targets.induct) auto

lemma assign_targets_literal:
  "Name ''__all__'' \<in> set ts \<Longrightarrow> v = Value (PyList xs) \<or> v = Value (PyTuple xs) \<Longrightarrow>
   assign_targets ts v ex = xs"
proof (induction ts v ex rule: assign_targets.induct)
  case (2 ident ts v exports)
  show ?case
  proof (cases "Name ''__all__'' \<in> set ts")
    case True
    with 2 show ?thesis by simp
  next
    case False
    with 2 have i: "ident = ''__all__''" by simp
    show ?thesis using 2(3) i False by (auto simp: assign_targets_keep)
  qed
qed auto

lemma scan_body_keep:
  "list_all (\<lambda>s. case s of
        Assign ts v \<Rightarrow> (Name ''__all__'' \<in> set ts \<longrightarrow> v = Raises \<or> v = Value PyOther)
      | Other_stmt \<Rightarrow> True) body \<Longrightarrow> scan_body body ex = ex"
  by (induction body ex rule: scan_body.induct) (auto simp: assign_targets_keep)

lemma scan_body_append: "scan_body (a @ b) ex = scan_body b (scan_body a ex)"
  by (induction a ex rule: scan_body.induct) auto

text \<open>
  C5, as amended.  Reading or parsing failure gives the empty list.  An assignment to
  \<open>__all__\<close> whose value is no list or tuple literal, or whose evaluation raises, is
  passed over: when all assignments to \<open>__all__\<close> are of that kind the list is empty, and
  the list is that of the last list or tuple assignment when only such assignments follow
  it.  Visiting the file records no error.
\<close>

theorem export_list_extraction:
  "snd (parse_init_doc_and_all Unreadable) = []
   \<and> snd (parse_init_doc_and_all Syntax_error) = []
   \<and> (list_all (\<lambda>s. case s of
          Assign ts v \<Rightarrow> (Name ''__all__'' \<in> set ts \<longrightarrow> v = Raises \<or> v = Value PyOther)
        | Other_stmt \<Rightarrow> True) rest
      \<longrightarrow> snd (parse_init_doc_and_all (Module doc rest)) = []
          \<and> (Name ''__all__'' \<in> set ts \<and> (v = Value (PyList xs) \<or> v = Value (PyTuple xs))
               \<longrightarrow> snd (parse_init_doc_and_all (Module doc (body @ Assign ts v # rest))) = xs))
   \<and> error_files (visit_file cfg root pkg f g) = error_files g"
  by (auto simp: scan_body_keep scan_body_append assign_targets_literal visit_file_error_files)

theorem export_list_extraction_witness:
  "snd (parse_init_doc_and_all (Module None [Assign [Name ''__all__''] Raises, Other_stmt])) = []
   \<and> snd (parse_init_doc_and_all (Module None
        ([Assign [Name ''__all__''] (Value (PyList [''a'']))] @
          Assign [Name ''__all__''] (Value (PyTuple [''b'', ''c''])) # [Assign [Name ''__all__''] Raises, Other_stmt])))
      = [''b'', ''c'']"
  using export_list_extraction [of "[Assign [Name ''__all__''] Raises, Other_stmt]" None
      "[Name ''__all__'']" "Value (PyTuple [''b'', ''c''])" "[''b'', ''c'']"
      "[Assign [Name ''__all__''] (Value (PyList [''a'']))]"]
  by simp

text \<open>
  C5 as stated fails: the evaluation of the second assignment raises, yet the list
  extracted is that of the first assignment and not the empty list.
\<close>

theorem later_failing_assignment_counterexample:
  "snd (parse_init_doc_and_all (Module None
      [Assign [Name ''__all__''] (Value (PyList [''a''])), Assign [Name ''__all__''] Raises])) = [''a'']"
  by simp

section \<open>The index of a group\<close>

text \<open>
  C6.  The tree builder takes as index of a group the page of the first node it meets with
  the three-segment prefix, not the page of the node equal to the key.  The directory
  \<open>Utils\<close> sorts before \<open>__init__.py\<close>, so its node is met first, and the label
  \<open>automa\<close> leads to the page of \<open>bridgic.core.automa.Utils\<close> although
  \<open>bridgic.core.automa\<close> is an entry point of its own.  In the second tree no entry
  point equals the group key, and the group still gets an index, the page of
  \<open>bridgic.core.automa.worker\<close>.
\<close>

theorem group_index_is_first_node_seen:
  "build_nav_structure_only default_config [''/'', ''repo'', ''bridgic-core''] ''bridgic-core''
     (Dir [\<lparr>dir_parts = [''bridgic'', ''core'', ''automa''], file_name = ''__init__.py'',
            st_size = Some 64,
            source = Module None [Assign [Name ''__all__''] (Value (PyList [''Automa'']))]\<rparr>,
           \<lparr>dir_parts = [''bridgic'', ''core'', ''automa'', ''Utils''], file_name = ''__init__.py'',
            st_size = Some 64,
            source = Module None [Assign [Name ''__all__''] (Value (PyList [''Helper'']))]\<rparr>])
     new_generator
   = \<lparr>package_nodes =
        [(''bridgic-core'',
          [([''bridgic'', ''core'', ''automa'', ''Utils''],
            ''reference/bridgic-core/bridgic/core/automa/Utils/index.md''),
           ([''bridgic'', ''core'', ''automa''],
            ''reference/bridgic-core/bridgic/core/automa/index.md'')])],
      nav_structure =
        [(''bridgic-core'',
          [(''bridgic.core.automa'',
            Items [Item ''automa'' (Path ''reference/bridgic-core/bridgic/core/automa/Utils/index.md''),
                   Item ''Utils'' (Path ''reference/bridgic-core/bridgic/core/automa/Utils/index.md'')])])],
      skipped_files = [],
      error_files = []\<rparr>
   \<and> nav_structure
       (build_nav_structure_only default_config [''/'', ''repo'', ''bridgic-core''] ''bridgic-core''
          (Dir [\<lparr>dir_parts = [''bridgic'', ''core'', ''automa''], file_name = ''__init__.py'',
                 st_size = Some 64, source = Module None [Other_stmt]\<rparr>,
                \<lparr>dir_parts = [''bridgic'', ''core'', ''automa'', ''worker''], file_name = ''__init__.py'',
                 st_size = Some 64,
                 source = Module None [Assign [Name ''__all__''] (Value (PyList [''Worker'']))]\<rparr>])
          new_generator)
     = [(''bridgic-core'',
         [(''bridgic.core.automa'',
           Items [Item ''automa'' (Path ''reference/bridgic-core/bridgic/core/automa/worker/index.md''),
                  Item ''worker'' (Path ''reference/bridgic-core/bridgic/core/automa/worker/index.md'')])])]"
  by code_simp

text \<open>
  C7.  By the same choice of index an entry point three segments below the group key is
  rendered, as the target of the group's index link.
\<close>

theorem deep_entry_point_rendered_as_index:
  "nav_structure
     (build_nav_structure_only default_config [''/'', ''repo'', ''bridgic-core''] ''bridgic-core''
        (Dir [\<lparr>dir_parts = [''bridgic'', ''core'', ''automa'', ''a'', ''b'', ''c''], file_name = ''__init__.py'',
               st_size = Some 64, source = Module None [Assign [Name ''__all__''] (Value (PyList [''Deep'']))]\<rparr>])
        new_generator)
   = [(''bridgic-core'',
       [(''bridgic.core.automa'',
         Items [Item ''automa'' (Path ''reference/bridgic-core/bridgic/core/automa/a/b/c/index.md'')])])]"
  by code_simp

section \<open>Properties of the string operations\<close>









section \<open>Properties of the rendering\<close>







section \<open>Properties of the template merge\<close>




lemma update_idem:
  "update_mkdocs_config Write_ok files nav = (ok, files') \<Longrightarrow>
   update_mkdocs_config Write_ok files' nav = (ok, files')"
  by (auto simp: update_mkdocs_config_def Let_def split: disk_file.splits if_splits)



lemma update_failure_untouched:
  "(\<forall>n. w \<noteq> Write_fails n) \<Longrightarrow> \<not> fst (update_mkdocs_config w files nav) \<Longrightarrow>
   snd (update_mkdocs_config w files nav) = files"
  by (cases w) (auto simp: update_mkdocs_config_def Let_def split: disk_file.splits if_splits)



lemma legacy_failure_untouched:
  "(\<forall>n. w \<noteq> Write_fails n) \<Longrightarrow> \<not> fst (update_mkdocs_config_legacy w files nav) \<Longrightarrow>
   snd (update_mkdocs_config_legacy w files nav) = files"
  by (cases w) (auto simp: update_mkdocs_config_legacy_def Let_def split: disk_file.splits if_splits option.splits prod.splits)



lemma update_no_placeholder:
  "(case template_file files of Content t \<Rightarrow> \<not> contains t PLACEHOLDER | _ \<Rightarrow> True) \<Longrightarrow>
   update_mkdocs_config w files nav = (False, files)"
  by (simp add: update_mkdocs_config_def split: disk_file.splits)

lemma legacy_no_marker:
  "(case mkdocs_file files of Content d \<Rightarrow> nav_search d = None | _ \<Rightarrow> True) \<Longrightarrow>
   update_mkdocs_config_legacy w files nav = (False, files)"
  by (simp add: update_mkdocs_config_legacy_def split: disk_file.splits)




text \<open>
  C2, as amended.  The destination is untouched when the merge fails because the template
  is missing, unreadable or without placeholder, when the region-staging routine fails
  because the destination is missing, unreadable or without the \<open>nav:\<close> marker, and when
  the destination cannot be opened for writing.  A failure after the file was opened is
  not covered.
\<close>

theorem failed_merge_leaves_destination:
  "((case template_file files of Content t \<Rightarrow> \<not> contains t PLACEHOLDER | _ \<Rightarrow> True)
      \<longrightarrow> update_mkdocs_config w files nav = (False, files))
   \<and> ((case mkdocs_file files of Content d \<Rightarrow> nav_search d = None | _ \<Rightarrow> True)
      \<longrightarrow> update_mkdocs_config_legacy w files nav = (False, files))
   \<and> ((\<forall>n. w \<noteq> Write_fails n) \<and> \<not> fst (update_mkdocs_config w files nav)
      \<longrightarrow> snd (update_mkdocs_config w files nav) = files)
   \<and> ((\<forall>n. w \<noteq> Write_fails n) \<and> \<not> fst (update_mkdocs_config_legacy w files nav)
      \<longrightarrow> snd (update_mkdocs_config_legacy w files nav) = files)"
  using update_no_placeholder [of files w nav] legacy_no_marker [of files w nav]
    update_failure_untouched [of w files nav] legacy_failure_untouched [of w files nav]
  by blast

theorem failed_merge_leaves_destination_witness:
  "update_mkdocs_config Write_ok
     \<lparr>template_file = Content ''nav:\<newline>plugins:\<newline>'', mkdocs_file = Content ''site_name: docs\<newline>''\<rparr>
     [(''bridgic-core'', [(''a.b.c'', Path ''c.md'')])]
   = (False, \<lparr>template_file = Content ''nav:\<newline>plugins:\<newline>'', mkdocs_file = Content ''site_name: docs\<newline>''\<rparr>)
   \<and> update_mkdocs_config_legacy Write_ok
     \<lparr>template_file = Content ''nav:\<newline>plugins:\<newline>'', mkdocs_file = Content ''site_name: docs\<newline>''\<rparr>
     [(''bridgic-core'', [(''a.b.c'', Path ''c.md'')])]
   = (False, \<lparr>template_file = Content ''nav:\<newline>plugins:\<newline>'', mkdocs_file = Content ''site_name: docs\<newline>''\<rparr>)
   \<and> snd (update_mkdocs_config Open_fails
     \<lparr>template_file = Content ''nav:\<newline>{{API_REFERENCE_CONTENT}}\<newline>'', mkdocs_file = Content ''site_name: docs\<newline>''\<rparr>
     [(''bridgic-core'', [(''a.b.c'', Path ''c.md'')])])
   = \<lparr>template_file = Content ''nav:\<newline>{{API_REFERENCE_CONTENT}}\<newline>'', mkdocs_file = Content ''site_name: docs\<newline>''\<rparr>
   \<and> snd (update_mkdocs_config_legacy Open_fails
     \<lparr>template_file = No_file, mkdocs_file = Content ''nav:\<newline>  - Home: index.md\<newline>''\<rparr>
     [(''bridgic-core'', [(''a.b.c'', Path ''c.md'')])])
   = \<lparr>template_file = No_file, mkdocs_file = Content ''nav:\<newline>  - Home: index.md\<newline>''\<rparr>"
proof -
  let ?nav = "[(''bridgic-core'', [(''a.b.c'', Path ''c.md'')])]"
  let ?f1 = "\<lparr>template_file = Content ''nav:\<newline>plugins:\<newline>'', mkdocs_file = Content ''site_name: docs\<newline>''\<rparr>"
  let ?f2 = "\<lparr>template_file = Content ''nav:\<newline>{{API_REFERENCE_CONTENT}}\<newline>'', mkdocs_file = Content ''site_name: docs\<newline>''\<rparr>"
  let ?f3 = "\<lparr>template_file = No_file, mkdocs_file = Content ''nav:\<newline>  - Home: index.md\<newline>''\<rparr>"
  have h1: "case template_file ?f1 of Content t \<Rightarrow> \<not> contains t PLACEHOLDER | _ \<Rightarrow> True"
    by code_simp
  have h2: "case mkdocs_file ?f1 of Content d \<Rightarrow> nav_search d = None | _ \<Rightarrow> True"
    by code_simp
  have h3: "(\<forall>n. Open_fails \<noteq> Write_fails n) \<and> \<not> fst (update_mkdocs_config Open_fails ?f2 ?nav)"
    by (simp add: update_mkdocs_config_def Let_def split: if_splits)
  have h4: "(\<forall>n. Open_fails \<noteq> Write_fails n) \<and> \<not> fst (update_mkdocs_config_legacy Open_fails ?f3 ?nav)"
    by (simp add: update_mkdocs_config_legacy_def Let_def split: option.splits prod.splits)
  from failed_merge_leaves_destination [of ?f1 Write_ok ?nav] h1 h2
  have a: "update_mkdocs_config Write_ok ?f1 ?nav = (False, ?f1)"
    and b: "update_mkdocs_config_legacy Write_ok ?f1 ?nav = (False, ?f1)"
    by blast+
  from failed_merge_leaves_destination [of ?f2 Open_fails ?nav] h3
  have c: "snd (update_mkdocs_config Open_fails ?f2 ?nav) = ?f2"
    by blast
  from failed_merge_leaves_destination [of ?f3 Open_fails ?nav] h4
  have d: "snd (update_mkdocs_config_legacy Open_fails ?f3 ?nav) = ?f3"
    by blast
  from a b c d show ?thesis
    by (simp only: simp_thms)
qed

text \<open>
  C2 as stated fails: the destination is opened for writing in place, so a write that
  fails leaves it truncated while the merge reports failure.
\<close>

theorem write_error_truncates_counterexample:
  "update_mkdocs_config (Write_fails 0)
     \<lparr>template_file = Content ''nav:\<newline>{{API_REFERENCE_CONTENT}}\<newline>'', mkdocs_file = Content ''site_name: docs\<newline>''\<rparr>
     [(''bridgic-core'', [(''a.b.c'', Path ''c.md'')])]
   = (False, \<lparr>template_file = Content ''nav:\<newline>{{API_REFERENCE_CONTENT}}\<newline>'', mkdocs_file = Content []\<rparr>)"
  by code_simp

text \<open>
  C9.  Running the merge again on the files it left, with the same navigation structure,
  gives the same result and the same files.
\<close>

theorem merge_idempotent:
  "update_mkdocs_config Write_ok files nav = (ok, files') \<Longrightarrow>
   update_mkdocs_config Write_ok files' nav = (ok, files')"
  by (rule update_idem)

theorem merge_idempotent_witness:
  "update_mkdocs_config Write_ok
     \<lparr>template_file = Content ''nav:\<newline>{{API_REFERENCE_CONTENT}}\<newline>'', mkdocs_file = Content ''site_name: docs\<newline>''\<rparr>
     [(''bridgic-core'', [(''a.b.c'', Path ''c.md'')])]
   = (True, \<lparr>template_file = Content ''nav:\<newline>{{API_REFERENCE_CONTENT}}\<newline>'',
             mkdocs_file = Content ''nav:\<newline>    - Bridgic-Core:\<newline>      - a.b.c: c.md\<newline>''\<rparr>)
   \<and> update_mkdocs_config Write_ok
     \<lparr>template_file = Content ''nav:\<newline>{{API_REFERENCE_CONTENT}}\<newline>'',
      mkdocs_file = Content ''nav:\<newline>    - Bridgic-Core:\<newline>      - a.b.c: c.md\<newline>''\<rparr>
     [(''bridgic-core'', [(''a.b.c'', Path ''c.md'')])]
   = (True, \<lparr>template_file = Content ''nav:\<newline>{{API_REFERENCE_CONTENT}}\<newline>'',
             mkdocs_file = Content ''nav:\<newline>    - Bridgic-Core:\<newline>      - a.b.c: c.md\<newline>''\<rparr>)"
proof -
  have h: "update_mkdocs_config Write_ok
     \<lparr>template_file = Content ''nav:\<newline>{{API_REFERENCE_CONTENT}}\<newline>'', mkdocs_file = Content ''site_name: docs\<newline>''\<rparr>
     [(''bridgic-core'', [(''a.b.c'', Path ''c.md'')])]
   = (True, \<lparr>template_file = Content ''nav:\<newline>{{API_REFERENCE_CONTENT}}\<newline>'',
             mkdocs_file = Content ''nav:\<newline>    - Bridgic-Core:\<newline>      - a.b.c: c.md\<newline>''\<rparr>)"
    by code_simp
  from h merge_idempotent [OF h] show ?thesis
    by (simp only: simp_thms)
qed

section \<open>Properties of the region staging\<close>















end
